theory Spec2Isabelle
  imports Main "HOL-Library.Multiset" "HOL-Library.Sublist"
begin

section \<open>The page state of frontend/script.js\<close>

text \<open>
  The script keeps its state in two module variables (\<open>categories\<close>, \<open>currentStep\<close>) and in
  the DOM: the values of the input fields, the chips it creates (with their \<open>selected\<close>
  class), the section buttons, the step that carries the class \<open>active\<close>, the alert in
  \<open>#results\<close> and the \<open>href\<close> of the download link. The model is a record of exactly these,
  passed through every function. Two fields are added to observe effects outside the page:
  the list of requests handed to \<open>fetch\<close> and the set of object URLs that were created and
  not yet revoked. A last field stands for the browser's parser, which the script calls
  when it writes a category name through \<open>innerHTML\<close>.

  \<open>chips\<close> is the list of the elements of class \<open>category-chip\<close> in document order, each
  with its \<open>data-category-id\<close>, \<open>data-category-name\<close> and \<open>data-content-type\<close> attributes
  and with whether it carries the class \<open>selected\<close>; an attribute that is missing is the
  empty string (\<open>join\<close> writes a missing name as the empty string too).

  Strings are lists of 8-bit characters read as code points below 256. The loading
  indicator, the button captions of step 1, the summary shown in the modal and the
  selection counter text are written by the script and read by none of its decisions;
  they are left out.
  \<open>filterMode_value\<close> is the value of the checked radio button of the group
  \<open>filterMode\<close>; one button of the group is always checked. The string fields of a
  category record and of a failure body are strings, as the backend sends them.
\<close>

record raw_category =
  category_id :: string
  category_name :: string
  content_type :: "string option"

text \<open>
  The parsed body of a response of \<open>/categories\<close>: the array of category records of a
  success, or the object of a failure with its optional \<open>details\<close> and \<open>error\<close> strings.
\<close>

datatype json_data =
    JsonObject (obj_details: "string option") (obj_error: "string option")
  | JsonArray "raw_category list"

datatype json_result = BadJson string | Json json_data

text \<open>
  What \<open>await fetch(...)\<close> followed by \<open>await response.json()\<close> can give: the promise of
  \<open>fetch\<close> rejects with an error message, or there is a response with its \<open>ok\<close> flag whose
  body parses (or whose parsing throws with a message).
\<close>

datatype categories_response =
    FetchRejected string
  | Response bool json_result

text \<open>
  For \<open>/m3u\<close>: \<open>fetch\<close> rejects, or the response is not \<open>ok\<close> and \<open>response.text()\<close> is
  read, or it is \<open>ok\<close> and its blob is taken.
\<close>

datatype m3u_response =
    M3uRejected string
  | M3uNotOk string
  | M3uOk

record chip =
  categoryId :: string
  categoryName :: string
  contentType :: string
  selected :: bool

datatype alert = AlertError string | AlertSuccess string

text \<open>
  The \<open>href\<close> of \<open>#finalDownloadLink\<close>: an object URL made by \<open>createObjectURL\<close> (these are
  the strings that start with \<open>blob:\<close>; they are numbered in the order of creation), or
  whatever the page had before.
\<close>

datatype href = NoBlob | BlobUrl nat

type_synonym params = "(string \<times> string) list"
type_synonym request = "string \<times> params"

record state =
  url_value :: string
  username_value :: string
  password_value :: string
  includeVod_checked :: bool
  filterMode_value :: string
  categories :: json_data
  currentStep :: nat
  activeSteps :: "nat set"
  buttons :: "(string \<times> string) list"
  chips :: "chip list"
  results :: "alert option"
  link_href :: href
  link_displayed :: bool
  liveUrls :: "nat set"
  nextUrl :: nat
  requests :: "request list"
  parse_chips :: "string \<Rightarrow> chip list"

section \<open>String helpers of JavaScript\<close>

text \<open>
  \<open>String.prototype.trim\<close> removes white space and line terminators from both ends; below
  code point 256 these are TAB, LF, VT, FF, CR, SPACE and NBSP.
\<close>

definition js_whitespace :: "char \<Rightarrow> bool" where
  "js_whitespace c = (of_char c \<in> {9, 10, 11, 12, 13, 32, 160 :: nat})"

definition trim :: "string \<Rightarrow> string" where
  "trim s = rev (dropWhile js_whitespace (rev (dropWhile js_whitespace s)))"

text \<open>\<open>Array.prototype.join(",")\<close>.\<close>

fun join_comma :: "string list \<Rightarrow> string" where
  "join_comma [] = []"
| "join_comma [x] = x"
| "join_comma (x # y # ys) = x @ '','' @ join_comma (y # ys)"

text \<open>
  \<open>a || d\<close> for an optional string property \<open>a\<close>: an absent property and the empty
  string are both falsy.
\<close>

fun prop_or :: "string option \<Rightarrow> string \<Rightarrow> string" where
  "prop_or None d = d"
| "prop_or (Some s) d = (if s = [] then d else s)"

section \<open>Flow management\<close>

definition hideAllSteps :: "state \<Rightarrow> state" where
  "hideAllSteps st = st\<lparr>activeSteps := {}\<rparr>"

definition showStep :: "nat \<Rightarrow> state \<Rightarrow> state" where
  "showStep stepNumber st = (hideAllSteps st)\<lparr>activeSteps := {stepNumber}, currentStep := stepNumber\<rparr>"

definition showError :: "string \<Rightarrow> state \<Rightarrow> state" where
  "showError message st = st\<lparr>results := Some (AlertError message)\<rparr>"

definition showSuccess :: "string \<Rightarrow> state \<Rightarrow> state" where
  "showSuccess message st = st\<lparr>results := Some (AlertSuccess message)\<rparr>"

definition clearResults :: "state \<Rightarrow> state" where
  "clearResults st = st\<lparr>results := None\<rparr>"

definition goBackToStep1 :: "state \<Rightarrow> state" where
  "goBackToStep1 st = showStep 1 st"

section \<open>Grouping and rendering the chips\<close>

record groups =
  live :: "raw_category list"
  vod :: "raw_category list"
  series :: "raw_category list"

definition empty_groups :: groups where
  "empty_groups = \<lparr>live = [], vod = [], series = []\<rparr>"

text \<open>
  \<open>category.content_type || "live"\<close>.
\<close>

definition effective_type :: "raw_category \<Rightarrow> string" where
  "effective_type c = prop_or (content_type c) ''live''"

text \<open>
  \<open>groupedCategories\<close> is an object literal, so \<open>groupedCategories[contentType]\<close> also finds
  the properties inherited from \<open>Object.prototype\<close>: they are truthy and have no \<open>push\<close>,
  and the call throws a TypeError (its message is the one of V8).
\<close>

definition object_prototype_keys :: "string list" where
  "object_prototype_keys =
    [''constructor'', ''hasOwnProperty'', ''isPrototypeOf'', ''propertyIsEnumerable'',
     ''toLocaleString'', ''toString'', ''valueOf'', ''__proto__'', ''__defineGetter__'',
     ''__defineSetter__'', ''__lookupGetter__'', ''__lookupSetter__'']"

definition push_category :: "groups \<Rightarrow> raw_category \<Rightarrow> string + groups" where
  "push_category g category =
    (let contentType = effective_type category in
     if contentType = ''live'' then Inr (g\<lparr>live := live g @ [category]\<rparr>)
     else if contentType = ''vod'' then Inr (g\<lparr>vod := vod g @ [category]\<rparr>)
     else if contentType = ''series'' then Inr (g\<lparr>series := series g @ [category]\<rparr>)
     else if contentType \<in> set object_prototype_keys
       then Inl ''groupedCategories[contentType].push is not a function''
     else Inr g)"

text \<open>The \<open>forEach\<close> over the fetched records; a thrown error ends it.\<close>

fun groupCategories :: "raw_category list \<Rightarrow> groups \<Rightarrow> string + groups" where
  "groupCategories [] g = Inr g"
| "groupCategories (category # rest) g =
    (case push_category g category of
       Inl e \<Rightarrow> Inl e
     | Inr g' \<Rightarrow> groupCategories rest g')"

definition make_chip :: "raw_category \<Rightarrow> chip" where
  "make_chip category =
    \<lparr>categoryId = category_id category,
     categoryName = category_name category,
     contentType = effective_type category,
     selected = False\<rparr>"

text \<open>
  One section: nothing for an empty group, else the header with its button
  (\<open>data-section\<close>, caption) and then the chips of the group.
\<close>

definition section_buttons :: "string \<Rightarrow> raw_category list \<Rightarrow> (string \<times> string) list" where
  "section_buttons key sectionCategories =
    (if sectionCategories = [] then [] else [(key, ''Select All'')])"

text \<open>
  Line 108 fills the chip with \<open>chip.innerHTML = `<span class="chip-text">${category.category_name}</span>`\<close>:
  the name is not escaped, so the parser turns markup in it into elements inside the
  chip. A name without the character \<open><\<close> holds no tag and creates none. For any other
  name the elements of class \<open>category-chip\<close> that its markup creates are what the
  parser of the page (\<open>parse_chips\<close>) makes of it; as descendants of the chip they follow
  it in document order. Whatever else markup can create (elements of other classes, event
  handlers) is not represented.
\<close>

definition markup_free :: "string \<Rightarrow> bool" where
  "markup_free text = (CHR ''<'' \<notin> set text)"

definition render_chip :: "(string \<Rightarrow> chip list) \<Rightarrow> raw_category \<Rightarrow> chip list" where
  "render_chip parse category =
    make_chip category
      # (if markup_free (category_name category) then [] else parse (category_name category))"

definition render_chips :: "(string \<Rightarrow> chip list) \<Rightarrow> groups \<Rightarrow> chip list" where
  "render_chips parse g =
    concat (map (render_chip parse) (live g)) @ concat (map (render_chip parse) (vod g))
      @ concat (map (render_chip parse) (series g))"

definition render_buttons :: "groups \<Rightarrow> (string \<times> string) list" where
  "render_buttons g =
    section_buttons ''live'' (live g) @ section_buttons ''vod'' (vod g)
      @ section_buttons ''series'' (series g)"

text \<open>
  \<open>displayCategoryChips\<close> returns the error it throws, if any, with the page as it is at
  that moment: the container has been emptied before the grouping starts. Called with the
  object of a failure body it throws at \<open>categories.forEach\<close>.
\<close>

definition displayCategoryChips :: "json_data \<Rightarrow> state \<Rightarrow> string option \<times> state" where
  "displayCategoryChips data st =
    (let st1 = st\<lparr>buttons := [], chips := []\<rparr> in
     case data of
       JsonObject d e \<Rightarrow> (Some ''categories.forEach is not a function'', st1)
     | JsonArray cats \<Rightarrow>
         (case groupCategories cats empty_groups of
            Inl err \<Rightarrow> (Some err, st1)
          | Inr g \<Rightarrow>
              (None, st1\<lparr>buttons := render_buttons g,
                          chips := render_chips (parse_chips st) g\<rparr>)))"

section \<open>Selection\<close>

text \<open>
  \<open>toggleChip(chip)\<close>, for the \<open>i\<close>-th element of \<open>chips\<close>. It is the \<open>onclick\<close> of the chips
  that \<open>displayCategoryChips\<close> creates.
\<close>

definition toggle_selected :: "chip \<Rightarrow> chip" where
  "toggle_selected c = c\<lparr>selected := \<not> selected c\<rparr>"

definition toggleChip :: "nat \<Rightarrow> state \<Rightarrow> state" where
  "toggleChip i st =
    (if i < length (chips st)
     then st\<lparr>chips := (chips st)[i := toggle_selected (chips st ! i)]\<rparr>
     else st)"

text \<open>
  The click handler of a section button: \<open>sectionChips\<close> are the elements whose
  \<open>data-content-type\<close> is the button's \<open>data-section\<close>.
\<close>

definition selectAllInSection :: "string \<Rightarrow> state \<Rightarrow> state" where
  "selectAllInSection sect st =
    (let sectionChips = filter (\<lambda>c. contentType c = sect) (chips st);
         allSelected = list_all selected sectionChips
     in st\<lparr>chips := map (\<lambda>c. if contentType c = sect then c\<lparr>selected := \<not> allSelected\<rparr> else c)
                       (chips st),
           buttons := map (\<lambda>(k, t). if k = sect
                                      then (k, if allSelected then ''Select All'' else ''Clear All'')
                                      else (k, t))
                       (buttons st)\<rparr>)"

text \<open>Ctrl+A in step 2: the same toggle over every chip.\<close>

definition selectAllGlobal :: "state \<Rightarrow> state" where
  "selectAllGlobal st =
    (if currentStep st = 2
     then (let allSelected = list_all selected (chips st)
           in st\<lparr>chips := map (\<lambda>c. c\<lparr>selected := \<not> allSelected\<rparr>) (chips st)\<rparr>)
     else st)"

definition clearSelection :: "state \<Rightarrow> state" where
  "clearSelection st =
    st\<lparr>chips := map (\<lambda>c. c\<lparr>selected := False\<rparr>) (chips st),
       buttons := map (\<lambda>(k, t). (k, ''Select All'')) (buttons st)\<rparr>"

definition getSelectedCategories :: "state \<Rightarrow> string list" where
  "getSelectedCategories st = map categoryName (filter selected (chips st))"

section \<open>The two requests\<close>

definition categoryParams :: "string \<Rightarrow> string \<Rightarrow> string \<Rightarrow> bool \<Rightarrow> params" where
  "categoryParams url username password includeVod =
    [(''url'', url), (''username'', username), (''password'', password)]
      @ (if includeVod then [(''include_vod'', ''true'')] else [])"

definition playlistParams ::
  "string \<Rightarrow> string \<Rightarrow> string \<Rightarrow> bool \<Rightarrow> string list \<Rightarrow> string \<Rightarrow> params" where
  "playlistParams url username password includeVod selectedCategories filterMode =
    [(''url'', url), (''username'', username), (''password'', password),
     (''nostreamproxy'', ''true'')]
      @ (if includeVod then [(''include_vod'', ''true'')] else [])
      @ (if selectedCategories \<noteq> []
         then (if filterMode = ''include''
               then [(''wanted_groups'', join_comma selectedCategories)]
               else [(''unwanted_groups'', join_comma selectedCategories)])
         else [])"

definition send :: "request \<Rightarrow> state \<Rightarrow> state" where
  "send r st = st\<lparr>requests := requests st @ [r]\<rparr>"

text \<open>The \<open>catch\<close> block of \<open>loadCategories\<close>.\<close>

definition loadCategories_catch :: "string \<Rightarrow> state \<Rightarrow> state" where
  "loadCategories_catch message st =
    showStep 1 (showError (''Failed to load categories: '' @ message) st)"

definition failure_text :: "json_data \<Rightarrow> string" where
  "failure_text data =
    (case data of
       JsonObject d e \<Rightarrow> prop_or d (prop_or e ''Failed to load categories'')
     | JsonArray cats \<Rightarrow> ''Failed to load categories'')"

definition loadCategories :: "categories_response \<Rightarrow> state \<Rightarrow> state" where
  "loadCategories resp st =
    (let url = trim (url_value st);
         username = trim (username_value st);
         password = trim (password_value st);
         includeVod = includeVod_checked st
     in if url = [] \<or> username = [] \<or> password = []
        then showError ''Please fill in all required fields'' st
        else
          (let st1 = clearResults (hideAllSteps st);
               st2 = send (''/categories'', categoryParams url username password includeVod) st1
           in case resp of
                FetchRejected message \<Rightarrow> loadCategories_catch message st2
              | Response ok body \<Rightarrow>
                  (case body of
                     BadJson message \<Rightarrow> loadCategories_catch message st2
                   | Json data \<Rightarrow>
                       if \<not> ok then loadCategories_catch (failure_text data) st2
                       else
                         (case displayCategoryChips data (st2\<lparr>categories := data\<rparr>) of
                            (Some message, st3) \<Rightarrow> loadCategories_catch message st3
                          | (None, st3) \<Rightarrow> showStep 2 st3))))"

text \<open>The \<open>catch\<close> block of \<open>confirmGeneration\<close>.\<close>

definition confirmGeneration_catch :: "string \<Rightarrow> state \<Rightarrow> state" where
  "confirmGeneration_catch message st =
    showStep 2 (showError (''Failed to generate M3U: '' @ message) st)"

text \<open>\<open>window.URL.createObjectURL\<close> and \<open>URL.revokeObjectURL\<close>.\<close>

definition createObjectURL :: "state \<Rightarrow> nat \<times> state" where
  "createObjectURL st =
    (nextUrl st, st\<lparr>liveUrls := insert (nextUrl st) (liveUrls st), nextUrl := Suc (nextUrl st)\<rparr>)"

definition revokeObjectURL :: "nat \<Rightarrow> state \<Rightarrow> state" where
  "revokeObjectURL u st = st\<lparr>liveUrls := liveUrls st - {u}\<rparr>"

definition confirmGeneration :: "m3u_response \<Rightarrow> state \<Rightarrow> state" where
  "confirmGeneration resp st =
    (let url = trim (url_value st);
         username = trim (username_value st);
         password = trim (password_value st);
         includeVod = includeVod_checked st;
         selectedCategories = getSelectedCategories st;
         filterMode = filterMode_value st;
         st1 = hideAllSteps st;
         st2 = send (''/m3u'', playlistParams url username password includeVod
                                 selectedCategories filterMode) st1
     in case resp of
          M3uRejected message \<Rightarrow> confirmGeneration_catch message st2
        | M3uNotOk errorText \<Rightarrow>
            confirmGeneration_catch
              (if errorText = [] then ''Failed to generate M3U playlist'' else errorText) st2
        | M3uOk \<Rightarrow>
            (case createObjectURL st2 of
               (downloadUrl, st3) \<Rightarrow>
                 showStep 3 (st3\<lparr>link_href := BlobUrl downloadUrl, link_displayed := True\<rparr>)))"

definition startOver :: "state \<Rightarrow> state" where
  "startOver st =
    (let st1 = st\<lparr>url_value := [], username_value := [], password_value := [],
                  includeVod_checked := False\<rparr>;
         st2 = st1\<lparr>categories := JsonArray [], buttons := [], chips := []\<rparr>;
         st3 = (case link_href st2 of
                  BlobUrl u \<Rightarrow> revokeObjectURL u st2
                | NoBlob \<Rightarrow> st2);
         st4 = st3\<lparr>link_displayed := False\<rparr>
     in showStep 1 (clearResults st4))"

definition useOtherCredentials :: "state \<Rightarrow> state" where
  "useOtherCredentials st =
    showStep 1 (clearResults
      (st\<lparr>url_value := [], username_value := [], password_value := []\<rparr>))"

section \<open>Observation and specification devices\<close>

text \<open>
  A request is \<open>fetch(`/m3u?${params}`)\<close>: it is recorded as the path and the entries of
  the \<open>URLSearchParams\<close> object in their order. \<open>getAll\<close> is
  \<open>URLSearchParams.getAll\<close>: the values stored under a key; the key is absent when the
  list is empty.
\<close>

definition getAll :: "string \<Rightarrow> params \<Rightarrow> string list" where
  "getAll key ps = map snd (filter (\<lambda>p. fst p = key) ps)"

definition valid_credentials :: "state \<Rightarrow> bool" where
  "valid_credentials st =
    (trim (url_value st) \<noteq> [] \<and> trim (username_value st) \<noteq> [] \<and>
     trim (password_value st) \<noteq> [])"

definition is_type :: "string \<Rightarrow> raw_category \<Rightarrow> bool" where
  "is_type key c = (effective_type c = key)"

definition known_type :: "raw_category \<Rightarrow> bool" where
  "known_type c = (effective_type c \<in> {''live'', ''vod'', ''series''})"



section \<open>User actions\<close>

text \<open>
  The page as it is first shown: step 1, no categories, no chips, the download link
  without an object URL, the filter mode on its default \<open>exclude\<close>. Its parser finds no
  chip in any text; the examples built on it use names without markup, except where
  they set another parser.
\<close>

definition initial_state :: state where
  "initial_state =
    \<lparr>url_value = [], username_value = [], password_value = [],
     includeVod_checked = False, filterMode_value = ''exclude'',
     categories = JsonArray [], currentStep = 1, activeSteps = {1},
     buttons = [], chips = [], results = None,
     link_href = NoBlob, link_displayed = False,
     liveUrls = {}, nextUrl = 0, requests = [], parse_chips = (\<lambda>text. [])\<rparr>"

text \<open>
  What the user can do: type into a field, tick the VOD box, pick a filter mode, and
  trigger one of the script's functions. \<open>perform\<close> runs a function to its end: the two
  functions that await a response carry the response they get, and nothing happens
  between the request and the response. The section on suspended calls below lifts
  that restriction.
\<close>

datatype action =
    EditUrl string
  | EditUsername string
  | EditPassword string
  | SetIncludeVod bool
  | SetFilterMode string
  | LoadCategories categories_response
  | ToggleChip nat
  | SelectAllInSection string
  | CtrlA
  | ClearSelection
  | ConfirmGeneration m3u_response
  | GoBackToStep1
  | UseOtherCredentials
  | StartOver

fun perform :: "action \<Rightarrow> state \<Rightarrow> state" where
  "perform (EditUrl s) st = st\<lparr>url_value := s\<rparr>"
| "perform (EditUsername s) st = st\<lparr>username_value := s\<rparr>"
| "perform (EditPassword s) st = st\<lparr>password_value := s\<rparr>"
| "perform (SetIncludeVod b) st = st\<lparr>includeVod_checked := b\<rparr>"
| "perform (SetFilterMode m) st = st\<lparr>filterMode_value := m\<rparr>"
| "perform (LoadCategories resp) st = loadCategories resp st"
| "perform (ToggleChip i) st = toggleChip i st"
| "perform (SelectAllInSection sect) st = selectAllInSection sect st"
| "perform CtrlA st = selectAllGlobal st"
| "perform ClearSelection st = clearSelection st"
| "perform (ConfirmGeneration resp) st = confirmGeneration resp st"
| "perform GoBackToStep1 st = goBackToStep1 st"
| "perform UseOtherCredentials st = useOtherCredentials st"
| "perform StartOver st = startOver st"

text \<open>The object URL the download link holds, if any.\<close>

definition held :: "state \<Rightarrow> nat set" where
  "held st = (case link_href st of BlobUrl u \<Rightarrow> {u} | NoBlob \<Rightarrow> {})"

section \<open>Suspended calls\<close>

text \<open>
  \<open>loadCategories\<close> and \<open>confirmGeneration\<close> are \<open>async\<close>: each runs up to its
  \<open>await fetch(...)\<close>, returns to the event loop, and is resumed when the response is
  there. In between the page handles other events. The two halves of each function:
\<close>

definition loadCategories_begin :: "state \<Rightarrow> state" where
  "loadCategories_begin st =
    (let url = trim (url_value st);
         username = trim (username_value st);
         password = trim (password_value st);
         includeVod = includeVod_checked st
     in if url = [] \<or> username = [] \<or> password = []
        then showError ''Please fill in all required fields'' st
        else send (''/categories'', categoryParams url username password includeVod)
               (clearResults (hideAllSteps st)))"

definition loadCategories_resume :: "categories_response \<Rightarrow> state \<Rightarrow> state" where
  "loadCategories_resume resp st =
    (case resp of
       FetchRejected message \<Rightarrow> loadCategories_catch message st
     | Response ok body \<Rightarrow>
         (case body of
            BadJson message \<Rightarrow> loadCategories_catch message st
          | Json data \<Rightarrow>
              if \<not> ok then loadCategories_catch (failure_text data) st
              else
                (case displayCategoryChips data (st\<lparr>categories := data\<rparr>) of
                   (Some message, st3) \<Rightarrow> loadCategories_catch message st3
                 | (None, st3) \<Rightarrow> showStep 2 st3)))"

definition confirmGeneration_begin :: "state \<Rightarrow> state" where
  "confirmGeneration_begin st =
    (let url = trim (url_value st);
         username = trim (username_value st);
         password = trim (password_value st);
         includeVod = includeVod_checked st;
         selectedCategories = getSelectedCategories st;
         filterMode = filterMode_value st
     in send (''/m3u'', playlistParams url username password includeVod
                          selectedCategories filterMode) (hideAllSteps st))"

definition confirmGeneration_resume :: "m3u_response \<Rightarrow> state \<Rightarrow> state" where
  "confirmGeneration_resume resp st =
    (case resp of
       M3uRejected message \<Rightarrow> confirmGeneration_catch message st
     | M3uNotOk errorText \<Rightarrow>
         confirmGeneration_catch
           (if errorText = [] then ''Failed to generate M3U playlist'' else errorText) st
     | M3uOk \<Rightarrow>
         (case createObjectURL st of
            (downloadUrl, st3) \<Rightarrow>
              showStep 3 (st3\<lparr>link_href := BlobUrl downloadUrl, link_displayed := True\<rparr>)))"

text \<open>
  A session is the page together with what the event loop holds: whether the
  confirmation modal is open (\<open>showConfirmation\<close> opens it, \<open>closeModal\<close> closes it) and
  how many calls of each kind wait for their response.
\<close>

record session =
  page :: state
  modal_active :: bool
  categories_in_flight :: nat
  m3u_in_flight :: nat

text \<open>
  The events whose effect the script itself decides: the \<open>keydown\<close> handler for
  Ctrl+Enter (lines 427-435: \<open>loadCategories()\<close> in step 1, \<open>showConfirmation()\<close> in step 2,
  whatever is on screen), the confirm button of the modal, which calls
  \<open>confirmGeneration()\<close>, and the arrival of a response. \<open>fire\<close> gives \<open>None\<close> for an event
  that cannot happen: a click on the confirm button of a closed modal, a response nobody
  waits for. It also gives \<open>None\<close> where this model ends: \<open>showConfirmation\<close> writes the
  trimmed url and user name into its summary through \<open>innerHTML\<close>, and what markup in
  them would create is not represented.
\<close>

datatype event =
    CtrlEnter
  | ConfirmClicked
  | CategoriesArrive categories_response
  | M3uArrive m3u_response

fun fire :: "event \<Rightarrow> session \<Rightarrow> session option" where
  "fire CtrlEnter s =
    (if currentStep (page s) = 1
     then Some (s\<lparr>page := loadCategories_begin (page s),
                   categories_in_flight :=
                     (if valid_credentials (page s) then Suc (categories_in_flight s)
                      else categories_in_flight s)\<rparr>)
     else if currentStep (page s) = 2
     then (if markup_free (trim (url_value (page s))) \<and>
              markup_free (trim (username_value (page s)))
           then Some (s\<lparr>modal_active := True\<rparr>)
           else None)
     else Some s)"
| "fire ConfirmClicked s =
    (if modal_active s
     then Some (s\<lparr>modal_active := False, page := confirmGeneration_begin (page s),
                   m3u_in_flight := Suc (m3u_in_flight s)\<rparr>)
     else None)"
| "fire (CategoriesArrive resp) s =
    (if 0 < categories_in_flight s
     then Some (s\<lparr>page := loadCategories_resume resp (page s),
                   categories_in_flight := categories_in_flight s - 1\<rparr>)
     else None)"
| "fire (M3uArrive resp) s =
    (if 0 < m3u_in_flight s
     then Some (s\<lparr>page := confirmGeneration_resume resp (page s),
                   m3u_in_flight := m3u_in_flight s - 1\<rparr>)
     else None)"

fun run :: "event list \<Rightarrow> session \<Rightarrow> session option" where
  "run [] s = Some s"
| "run (e # es) s = (case fire e s of None \<Rightarrow> None | Some s' \<Rightarrow> run es s')"

definition idle :: "state \<Rightarrow> session" where
  "idle st = \<lparr>page = st, modal_active = False, categories_in_flight = 0, m3u_in_flight = 0\<rparr>"

section \<open>Example pages\<close>

definition example_credentials :: state where
  "example_credentials =
    perform (EditPassword ''p'') (perform (EditUsername ''u'')
      (perform (EditUrl ''http://tv '') initial_state))"

definition example_blank :: state where
  "example_blank = perform (EditPassword ''  '') example_credentials"

definition example_categories :: "raw_category list" where
  "example_categories =
    [\<lparr>category_id = ''1'', category_name = ''News'', content_type = None\<rparr>,
     \<lparr>category_id = ''2'', category_name = ''Sports'', content_type = Some ''live''\<rparr>]"

definition example_loaded :: state where
  "example_loaded =
    perform (LoadCategories (Response True (Json (JsonArray example_categories))))
      example_credentials"

definition example_partial :: state where
  "example_partial = perform (ToggleChip 1) example_loaded"

definition example_selecting :: state where
  "example_selecting = perform (ToggleChip 0) example_partial"

definition example_mixed :: "raw_category list" where
  "example_mixed =
    [\<lparr>category_id = ''20'', category_name = ''Movie X'', content_type = Some ''vod''\<rparr>,
     \<lparr>category_id = ''10'', category_name = ''BBC'', content_type = Some ''live''\<rparr>,
     \<lparr>category_id = ''30'', category_name = ''Show'', content_type = Some ''series''\<rparr>,
     \<lparr>category_id = ''11'', category_name = ''News'', content_type = None\<rparr>]"


definition radio_category :: raw_category where
  "radio_category =
    \<lparr>category_id = ''9'', category_name = ''Radio'', content_type = Some ''radio''\<rparr>"






text \<open>
  Two generations that overlap: in step 2 the user opens the confirmation with Ctrl+Enter
  and confirms; while the request is in flight (the step is still 2) the user does the
  same again; then the two responses arrive, both \<open>ok\<close>.
\<close>

definition example_overlap :: "session option" where
  "example_overlap =
    run [CtrlEnter, ConfirmClicked, CtrlEnter, ConfirmClicked, M3uArrive M3uOk, M3uArrive M3uOk]
      (idle example_selecting)"

section \<open>Evaluating the example pages\<close>

lemma example_credentials_eval:
  "example_credentials =
    initial_state\<lparr>url_value := ''http://tv '', username_value := ''u'', password_value := ''p''\<rparr>"
  by (simp add: example_credentials_def)

lemma valid_example_credentials: "valid_credentials example_credentials"
  by (simp add: valid_credentials_def example_credentials_eval trim_def js_whitespace_def)

lemma invalid_example_blank: "\<not> valid_credentials example_blank"
  by (simp add: valid_credentials_def example_blank_def example_credentials_eval trim_def
      js_whitespace_def)

lemma example_loaded_eval:
  "example_loaded =
    \<lparr>url_value = ''http://tv '', username_value = ''u'', password_value = ''p'',
     includeVod_checked = False, filterMode_value = ''exclude'',
     categories = JsonArray example_categories, currentStep = 2, activeSteps = {2},
     buttons = [(''live'', ''Select All'')],
     chips = [\<lparr>categoryId = ''1'', categoryName = ''News'', contentType = ''live'',
                selected = False\<rparr>,
              \<lparr>categoryId = ''2'', categoryName = ''Sports'', contentType = ''live'',
                selected = False\<rparr>],
     results = None, link_href = NoBlob, link_displayed = False,
     liveUrls = {}, nextUrl = 0,
     requests = [(''/categories'',
                  [(''url'', ''http://tv''), (''username'', ''u''), (''password'', ''p'')])],
     parse_chips = (\<lambda>text. [])\<rparr>"
  by (simp add: example_loaded_def example_credentials_eval example_categories_def
      initial_state_def loadCategories_def trim_def js_whitespace_def Let_def
      clearResults_def hideAllSteps_def send_def categoryParams_def displayCategoryChips_def
      push_category_def effective_type_def empty_groups_def render_buttons_def
      render_chips_def render_chip_def section_buttons_def make_chip_def showStep_def)

lemma example_partial_eval:
  "example_partial =
    example_loaded
      \<lparr>chips := [\<lparr>categoryId = ''1'', categoryName = ''News'', contentType = ''live'',
                   selected = False\<rparr>,
                 \<lparr>categoryId = ''2'', categoryName = ''Sports'', contentType = ''live'',
                   selected = True\<rparr>]\<rparr>"
  by (simp add: example_partial_def example_loaded_eval toggleChip_def toggle_selected_def)

lemma example_selecting_eval:
  "example_selecting =
    example_loaded
      \<lparr>chips := [\<lparr>categoryId = ''1'', categoryName = ''News'', contentType = ''live'',
                   selected = True\<rparr>,
                 \<lparr>categoryId = ''2'', categoryName = ''Sports'', contentType = ''live'',
                   selected = True\<rparr>]\<rparr>"
  by (simp add: example_selecting_def example_partial_eval example_loaded_eval toggleChip_def
      toggle_selected_def)

lemma example_selecting_chips:
  "chips example_selecting =
     [\<lparr>categoryId = ''1'', categoryName = ''News'', contentType = ''live'', selected = True\<rparr>,
      \<lparr>categoryId = ''2'', categoryName = ''Sports'', contentType = ''live'', selected = True\<rparr>]"
  by (simp add: example_selecting_eval)


lemma example_steps:
  "currentStep example_credentials = 1" "currentStep example_loaded = 2"
  "currentStep example_partial = 2" "currentStep example_selecting = 2"
  by (simp_all add: example_credentials_eval initial_state_def example_loaded_eval
      example_partial_eval example_selecting_eval)


section \<open>The requests that are sent\<close>

lemma confirmGeneration_requests:
  "requests (confirmGeneration resp st) =
     requests st @ [(''/m3u'', playlistParams (trim (url_value st)) (trim (username_value st))
        (trim (password_value st)) (includeVod_checked st) (getSelectedCategories st)
        (filterMode_value st))]"
  by (cases resp)
     (simp_all add: confirmGeneration_def Let_def confirmGeneration_catch_def showStep_def
        hideAllSteps_def showError_def send_def createObjectURL_def)

lemma getAll_wanted:
  "getAll ''wanted_groups'' (playlistParams u n p iv sel m) =
     (if sel \<noteq> [] \<and> m = ''include'' then [join_comma sel] else [])"
  by (simp add: getAll_def playlistParams_def)

lemma getAll_unwanted:
  "getAll ''unwanted_groups'' (playlistParams u n p iv sel m) =
     (if sel \<noteq> [] \<and> m \<noteq> ''include'' then [join_comma sel] else [])"
  by (simp add: getAll_def playlistParams_def)

lemma getAll_include_vod_playlist:
  "getAll ''include_vod'' (playlistParams u n p iv sel m) = (if iv then [''true''] else [])"
  by (simp add: getAll_def playlistParams_def)

lemma getAll_include_vod_category:
  "getAll ''include_vod'' (categoryParams u n p iv) = (if iv then [''true''] else [])"
  by (simp add: getAll_def categoryParams_def)

lemma displayCategoryChips_frame:
  assumes "displayCategoryChips data st0 = (m, st3)"
  shows "requests st3 = requests st0 \<and> liveUrls st3 = liveUrls st0 \<and>
     link_href st3 = link_href st0"
  using assms
  by (auto simp: displayCategoryChips_def Let_def split: json_data.splits sum.splits)

lemma loadCategories_catch_frame:
  "requests (loadCategories_catch m st) = requests st \<and>
   liveUrls (loadCategories_catch m st) = liveUrls st \<and>
   link_href (loadCategories_catch m st) = link_href st \<and>
   currentStep (loadCategories_catch m st) = 1"
  by (simp add: loadCategories_catch_def showStep_def hideAllSteps_def showError_def)

lemma loadCategories_invalid:
  "\<not> valid_credentials st \<Longrightarrow>
   loadCategories resp st = st\<lparr>results := Some (AlertError ''Please fill in all required fields'')\<rparr>"
  by (auto simp: valid_credentials_def loadCategories_def Let_def showError_def)

lemma loadCategories_frame:
  assumes "valid_credentials st"
  shows "requests (loadCategories resp st) =
       requests st @ [(''/categories'', categoryParams (trim (url_value st))
          (trim (username_value st)) (trim (password_value st)) (includeVod_checked st))] \<and>
     liveUrls (loadCategories resp st) = liveUrls st \<and>
     link_href (loadCategories resp st) = link_href st \<and>
     currentStep (loadCategories resp st) \<in> {1, 2}"
proof -
  let ?r = "(''/categories'', categoryParams (trim (url_value st))
      (trim (username_value st)) (trim (password_value st)) (includeVod_checked st))"
  let ?st2 = "send ?r (clearResults (hideAllSteps st))"
  have v: "\<not> (trim (url_value st) = [] \<or> trim (username_value st) = []
      \<or> trim (password_value st) = [])"
    using assms by (simp add: valid_credentials_def)
  have s2: "requests ?st2 = requests st @ [?r] \<and> liveUrls ?st2 = liveUrls st \<and>
      link_href ?st2 = link_href st"
    by (simp add: send_def clearResults_def hideAllSteps_def)
  show ?thesis
  proof (cases resp)
    case (FetchRejected m)
    then show ?thesis
      using v s2 by (simp add: loadCategories_def Let_def loadCategories_catch_frame)
  next
    case (Response ok body)
    show ?thesis
    proof (cases body)
      case (BadJson m)
      then show ?thesis
        using v s2 Response by (simp add: loadCategories_def Let_def loadCategories_catch_frame)
    next
      case (Json data)
      obtain m st3 where d: "displayCategoryChips data (?st2\<lparr>categories := data\<rparr>) = (m, st3)"
        by (cases "displayCategoryChips data (?st2\<lparr>categories := data\<rparr>)")
      have f: "requests st3 = requests st @ [?r] \<and> liveUrls st3 = liveUrls st \<and>
          link_href st3 = link_href st"
        using displayCategoryChips_frame [OF d] s2 by simp
      show ?thesis
        using v s2 Response Json d f
        by (cases m) (simp_all add: loadCategories_def Let_def loadCategories_catch_frame
            showStep_def hideAllSteps_def)
    qed
  qed
qed

section \<open>Request construction\<close>

text \<open>
  C1. Whatever the selection and the filter mode, the request of \<open>confirmGeneration\<close> has no
  \<open>wanted_groups\<close> and no \<open>unwanted_groups\<close> entry when no chip is selected; when some chip
  is selected it has exactly one \<open>wanted_groups\<close> entry and no \<open>unwanted_groups\<close> entry in
  mode \<open>include\<close>, and exactly one \<open>unwanted_groups\<close> entry and no \<open>wanted_groups\<close> entry
  otherwise.
\<close>

theorem group_filter_keys:
  "\<exists>ps. requests (confirmGeneration resp st) = requests st @ [(''/m3u'', ps)] \<and>
     (filter selected (chips st) = [] \<longrightarrow>
        getAll ''wanted_groups'' ps = [] \<and> getAll ''unwanted_groups'' ps = []) \<and>
     (filter selected (chips st) \<noteq> [] \<and> filterMode_value st = ''include'' \<longrightarrow>
        length (getAll ''wanted_groups'' ps) = 1 \<and> getAll ''unwanted_groups'' ps = []) \<and>
     (filter selected (chips st) \<noteq> [] \<and> filterMode_value st \<noteq> ''include'' \<longrightarrow>
        length (getAll ''unwanted_groups'' ps) = 1 \<and> getAll ''wanted_groups'' ps = [])"
  by (simp add: confirmGeneration_requests getAll_wanted getAll_unwanted
      getSelectedCategories_def)

theorem group_filter_keys_witness:
  "filter selected (chips example_loaded) = [] \<and>
   (\<exists>ps. requests (confirmGeneration M3uOk example_loaded)
            = requests example_loaded @ [(''/m3u'', ps)] \<and>
          getAll ''wanted_groups'' ps = [] \<and> getAll ''unwanted_groups'' ps = []) \<and>
   filter selected (chips example_selecting) \<noteq> [] \<and>
   filterMode_value example_selecting \<noteq> ''include'' \<and>
   (\<exists>ps. requests (confirmGeneration M3uOk example_selecting)
            = requests example_selecting @ [(''/m3u'', ps)] \<and>
          length (getAll ''unwanted_groups'' ps) = 1 \<and> getAll ''wanted_groups'' ps = [])"
proof -
  have a: "filter selected (chips example_loaded) = []"
    by (simp add: example_loaded_eval)
  have b: "filter selected (chips example_selecting) \<noteq> []"
    by (simp add: example_selecting_chips)
  have c: "filterMode_value example_selecting \<noteq> ''include''"
    by (simp add: example_selecting_eval example_loaded_eval)
  show ?thesis
    using a b c group_filter_keys [of M3uOk example_loaded]
      group_filter_keys [of M3uOk example_selecting]
    by simp
qed

text \<open>
  C2. When some chip is selected, the value sent under \<open>wanted_groups\<close> (mode \<open>include\<close>) or
  \<open>unwanted_groups\<close> (any other mode) is the comma-joined list of the \<open>categoryName\<close> of the
  selected chips, which is the \<open>category_name\<close> of the record the chip was made from, never
  its \<open>category_id\<close>; the other key is absent. The witness is the example of the
  specification: ids 1 and 2 named News and Sports give \<open>News,Sports\<close>.
\<close>

theorem group_value_is_names:
  assumes "filter selected (chips st) \<noteq> []"
  shows "(\<exists>ps. requests (confirmGeneration resp st) = requests st @ [(''/m3u'', ps)] \<and>
     (filterMode_value st = ''include'' \<longrightarrow>
        getAll ''wanted_groups'' ps
          = [join_comma (map categoryName (filter selected (chips st)))] \<and>
        getAll ''unwanted_groups'' ps = []) \<and>
     (filterMode_value st \<noteq> ''include'' \<longrightarrow>
        getAll ''unwanted_groups'' ps
          = [join_comma (map categoryName (filter selected (chips st)))] \<and>
        getAll ''wanted_groups'' ps = [])) \<and>
     categoryName (make_chip c) = category_name c"
  using assms
  by (simp add: confirmGeneration_requests getAll_wanted getAll_unwanted
      getSelectedCategories_def make_chip_def)

theorem group_value_is_names_witness:
  "filter selected (chips example_selecting) \<noteq> [] \<and>
   map categoryId (filter selected (chips example_selecting)) = [''1'', ''2''] \<and>
   (\<exists>ps. requests (confirmGeneration M3uOk (perform (SetFilterMode ''include'') example_selecting))
            = requests example_selecting @ [(''/m3u'', ps)] \<and>
          getAll ''wanted_groups'' ps = [''News,Sports''] \<and>
          getAll ''unwanted_groups'' ps = []) \<and>
   (\<exists>ps. requests (confirmGeneration M3uOk (perform (SetFilterMode ''exclude'') example_selecting))
            = requests example_selecting @ [(''/m3u'', ps)] \<and>
          getAll ''unwanted_groups'' ps = [''News,Sports''] \<and>
          getAll ''wanted_groups'' ps = [])"
proof -
  have b: "filter selected (chips example_selecting) \<noteq> []"
    by (simp add: example_selecting_chips)
  have i: "filter selected (chips (perform (SetFilterMode ''include'') example_selecting)) \<noteq> []"
    by (simp add: example_selecting_chips)
  have e: "filter selected (chips (perform (SetFilterMode ''exclude'') example_selecting)) \<noteq> []"
    by (simp add: example_selecting_chips)
  show ?thesis
    using b group_value_is_names [OF i, of M3uOk]
      group_value_is_names [OF e, of M3uOk]
    by (simp add: example_selecting_chips)
qed

text \<open>
  C4. In the request of \<open>loadCategories\<close> (sent when the three fields are filled) and in
  the request of \<open>confirmGeneration\<close>, the key \<open>include_vod\<close> carries the single value
  \<open>true\<close> when the box is ticked and is absent when it is not.
\<close>

theorem include_vod_key:
  "(valid_credentials st \<longrightarrow>
      (\<exists>ps. requests (loadCategories resp st) = requests st @ [(''/categories'', ps)] \<and>
         getAll ''include_vod'' ps = (if includeVod_checked st then [''true''] else []))) \<and>
   (\<exists>ps. requests (confirmGeneration resp' st) = requests st @ [(''/m3u'', ps)] \<and>
      getAll ''include_vod'' ps = (if includeVod_checked st then [''true''] else []))"
  by (simp add: loadCategories_frame confirmGeneration_requests
      getAll_include_vod_playlist getAll_include_vod_category)

theorem include_vod_key_witness:
  "valid_credentials (perform (SetIncludeVod True) example_credentials) \<and>
   (\<exists>ps. requests (loadCategories (FetchRejected ''offline'')
                     (perform (SetIncludeVod True) example_credentials))
            = [(''/categories'', ps)] \<and>
          getAll ''include_vod'' ps = [''true'']) \<and>
   (\<exists>ps. requests (confirmGeneration M3uOk (perform (SetIncludeVod True) example_credentials))
            = [(''/m3u'', ps)] \<and>
          getAll ''include_vod'' ps = [''true'']) \<and>
   valid_credentials example_credentials \<and>
   (\<exists>ps. requests (loadCategories (FetchRejected ''offline'') example_credentials)
            = [(''/categories'', ps)] \<and>
          getAll ''include_vod'' ps = []) \<and>
   (\<exists>ps. requests (confirmGeneration M3uOk example_credentials) = [(''/m3u'', ps)] \<and>
          getAll ''include_vod'' ps = [])"
proof -
  have v: "valid_credentials (perform (SetIncludeVod True) example_credentials)"
    using valid_example_credentials by (simp add: valid_credentials_def)
  have r: "requests example_credentials = []" "\<not> includeVod_checked example_credentials"
    by (simp_all add: example_credentials_eval initial_state_def)
  show ?thesis
    using v r valid_example_credentials
      include_vod_key [of "perform (SetIncludeVod True) example_credentials"
        "FetchRejected ''offline''" M3uOk]
      include_vod_key [of example_credentials "FetchRejected ''offline''" M3uOk]
    by simp
qed

section \<open>Grouping\<close>

lemma push_category_Inr:
  "push_category g c = Inr g' \<Longrightarrow>
   g' = \<lparr>live = live g @ filter (is_type ''live'') [c],
         vod = vod g @ filter (is_type ''vod'') [c],
         series = series g @ filter (is_type ''series'') [c]\<rparr>"
  by (auto simp: push_category_def Let_def is_type_def split: if_splits)

lemma groupCategories_Inr:
  "groupCategories cats g = Inr g' \<Longrightarrow>
   g' = \<lparr>live = live g @ filter (is_type ''live'') cats,
         vod = vod g @ filter (is_type ''vod'') cats,
         series = series g @ filter (is_type ''series'') cats\<rparr>"
proof (induction cats arbitrary: g)
  case Nil
  then show ?case by simp
next
  case (Cons c cats)
  from Cons.prems obtain g1 where p: "push_category g c = Inr g1"
    and r: "groupCategories cats g1 = Inr g'"
    by (auto split: sum.splits)
  show ?case
    using Cons.IH [OF r] push_category_Inr [OF p] by simp
qed

lemma push_category_known:
  "known_type c \<Longrightarrow> \<exists>g'. push_category g c = Inr g'"
  by (auto simp: push_category_def Let_def known_type_def)

lemma groupCategories_known:
  "\<forall>c \<in> set cats. known_type c \<Longrightarrow> \<exists>g'. groupCategories cats g = Inr g'"
proof (induction cats arbitrary: g)
  case Nil
  then show ?case by simp
next
  case (Cons c cats)
  from Cons.prems obtain g1 where p: "push_category g c = Inr g1"
    using push_category_known [of c g] by auto
  show ?case
    using Cons.IH [of g1] Cons.prems p by simp
qed

lemma mset_three_filters:
  "\<forall>c \<in> set cats. known_type c \<Longrightarrow>
   mset (filter (is_type ''live'') cats) + mset (filter (is_type ''vod'') cats)
     + mset (filter (is_type ''series'') cats) = mset cats"
  by (induction cats) (auto simp: known_type_def is_type_def)

text \<open>
  C3, as amended. For a category list in which every \<open>content_type\<close> is absent, empty or
  one of \<open>live\<close>, \<open>vod\<close>, \<open>series\<close>, the grouping of \<open>displayCategoryChips\<close> succeeds and
  puts every category into exactly one of the three groups (the groups are pairwise
  disjoint, their union is the input, and together they hold every record as often as the
  input does); records without \<open>content_type\<close> are in \<open>live\<close>; and each group is the
  input filtered by its type, so it keeps the input's relative order.
\<close>

theorem grouping_partitions_known_types:
  assumes "\<forall>c \<in> set cats. known_type c"
  shows "\<exists>g. groupCategories cats empty_groups = Inr g \<and>
     displayCategoryChips (JsonArray cats) st
       = (None, st\<lparr>buttons := render_buttons g, chips := render_chips (parse_chips st) g\<rparr>) \<and>
     live g = filter (is_type ''live'') cats \<and>
     vod g = filter (is_type ''vod'') cats \<and>
     series g = filter (is_type ''series'') cats \<and>
     mset (live g) + mset (vod g) + mset (series g) = mset cats \<and>
     set (live g) \<union> set (vod g) \<union> set (series g) = set cats \<and>
     set (live g) \<inter> set (vod g) = {} \<and> set (live g) \<inter> set (series g) = {} \<and>
     set (vod g) \<inter> set (series g) = {} \<and>
     (\<forall>c \<in> set cats. content_type c = None \<longrightarrow> c \<in> set (live g)) \<and>
     subseq (live g) cats \<and> subseq (vod g) cats \<and> subseq (series g) cats"
proof -
  let ?g = "\<lparr>live = filter (is_type ''live'') cats, vod = filter (is_type ''vod'') cats,
             series = filter (is_type ''series'') cats\<rparr>"
  obtain g' where g': "groupCategories cats empty_groups = Inr g'"
    using groupCategories_known [OF assms] by blast
  have g: "groupCategories cats empty_groups = Inr ?g"
    using groupCategories_Inr [OF g'] g' by (simp add: empty_groups_def)
  have d: "displayCategoryChips (JsonArray cats) st
       = (None, st\<lparr>buttons := render_buttons ?g, chips := render_chips (parse_chips st) ?g\<rparr>)"
    by (simp add: displayCategoryChips_def Let_def g)
  have m: "mset (live ?g) + mset (vod ?g) + mset (series ?g) = mset cats"
    using mset_three_filters [OF assms] by simp
  have u: "set (live ?g) \<union> set (vod ?g) \<union> set (series ?g) = set cats"
    using assms by (auto simp: known_type_def is_type_def)
  have i: "set (live ?g) \<inter> set (vod ?g) = {}" "set (live ?g) \<inter> set (series ?g) = {}"
    "set (vod ?g) \<inter> set (series ?g) = {}"
    by (auto simp: is_type_def)
  have n: "\<forall>c \<in> set cats. content_type c = None \<longrightarrow> c \<in> set (live ?g)"
    by (simp add: is_type_def effective_type_def)
  have s: "subseq (live ?g) cats" "subseq (vod ?g) cats" "subseq (series ?g) cats"
    by simp_all
  show ?thesis
    using g d m u i n s by (intro exI [of _ ?g]) simp
qed

theorem grouping_partitions_known_types_witness:
  "list_all known_type example_mixed \<and>
   (\<exists>g. groupCategories example_mixed empty_groups = Inr g \<and>
      map category_name (live g) = [''BBC'', ''News''] \<and>
      map category_name (vod g) = [''Movie X''] \<and>
      map category_name (series g) = [''Show''] \<and>
      mset (live g) + mset (vod g) + mset (series g) = mset example_mixed)"
proof -
  have k: "\<forall>c \<in> set example_mixed. known_type c"
    by (simp add: example_mixed_def known_type_def effective_type_def)
  have f: "map category_name (filter (is_type ''live'') example_mixed) = [''BBC'', ''News'']"
    "map category_name (filter (is_type ''vod'') example_mixed) = [''Movie X'']"
    "map category_name (filter (is_type ''series'') example_mixed) = [''Show'']"
    by (simp_all add: example_mixed_def is_type_def effective_type_def)
  from grouping_partitions_known_types [OF k, of initial_state]
  obtain g where "groupCategories example_mixed empty_groups = Inr g"
    and "live g = filter (is_type ''live'') example_mixed"
    and "vod g = filter (is_type ''vod'') example_mixed"
    and "series g = filter (is_type ''series'') example_mixed"
    and "mset (live g) + mset (vod g) + mset (series g) = mset example_mixed"
    by blast
  then show ?thesis
    using k f by (auto simp: list_all_iff)
qed

text \<open>
  C3 as stated fails: a record whose \<open>content_type\<close> is another string is kept out of
  every group by the guard \<open>if (groupedCategories[contentType])\<close>. The list holding the one
  category \<open>Radio\<close> of type \<open>radio\<close> is grouped into three empty groups, and no chip is
  made for it.
\<close>

theorem grouping_drops_unknown_type:
  "groupCategories [radio_category] empty_groups = Inr \<lparr>live = [], vod = [], series = []\<rparr> \<and>
   displayCategoryChips (JsonArray [radio_category]) initial_state
     = (None, initial_state\<lparr>buttons := [], chips := []\<rparr>)"
  by (simp add: radio_category_def empty_groups_def push_category_def effective_type_def
      object_prototype_keys_def displayCategoryChips_def Let_def render_buttons_def
      render_chips_def section_buttons_def)

section \<open>Selecting a whole section\<close>










text \<open>
  The other end of the toggle, on the example page: both chips of \<open>live\<close> are selected,
  the first click clears them and the second selects them again.
\<close>

lemma two_clicks_on_full_section:
  "map selected (chips example_selecting) = [True, True] \<and>
   map contentType (chips example_selecting) = [''live'', ''live''] \<and>
   map selected (chips (selectAllInSection ''live'' example_selecting)) = [False, False] \<and>
   map selected (chips (selectAllInSection ''live'' (selectAllInSection ''live'' example_selecting)))
     = [True, True]"
  by (simp add: selectAllInSection_def Let_def example_selecting_chips)

section \<open>Fetching the categories\<close>

text \<open>
  C6. When one of the trimmed fields is empty, \<open>loadCategories\<close> only shows the
  validation error: no request is sent, and the step, the stored categories and the chips
  are untouched. A request to \<open>/categories\<close> is sent exactly when the three trimmed fields
  are non-empty.
\<close>

theorem validation_before_fetch:
  "(\<not> valid_credentials st \<longrightarrow>
      loadCategories resp st
        = st\<lparr>results := Some (AlertError ''Please fill in all required fields'')\<rparr> \<and>
      requests (loadCategories resp st) = requests st \<and>
      currentStep (loadCategories resp st) = currentStep st \<and>
      activeSteps (loadCategories resp st) = activeSteps st \<and>
      categories (loadCategories resp st) = categories st \<and>
      chips (loadCategories resp st) = chips st) \<and>
   (valid_credentials st \<longrightarrow>
      (\<exists>ps. requests (loadCategories resp st) = requests st @ [(''/categories'', ps)])) \<and>
   (requests (loadCategories resp st) \<noteq> requests st) = valid_credentials st \<and>
   valid_credentials st
     = (trim (url_value st) \<noteq> [] \<and> trim (username_value st) \<noteq> [] \<and>
        trim (password_value st) \<noteq> [])"
proof (cases "valid_credentials st")
  case True
  then show ?thesis
    using loadCategories_frame [OF True, of resp] by (simp add: valid_credentials_def)
next
  case False
  then show ?thesis
    using loadCategories_invalid [OF False, of resp] by (simp add: valid_credentials_def)
qed

theorem validation_before_fetch_witness:
  "\<not> valid_credentials example_blank \<and>
   password_value example_blank = ''  '' \<and>
   requests (loadCategories (Response True (Json (JsonArray example_categories))) example_blank)
     = requests example_blank \<and>
   results (loadCategories (Response True (Json (JsonArray example_categories))) example_blank)
     = Some (AlertError ''Please fill in all required fields'') \<and>
   valid_credentials example_credentials \<and>
   (\<exists>ps. requests (loadCategories (Response True (Json (JsonArray example_categories)))
                     example_credentials)
            = requests example_credentials @ [(''/categories'', ps)])"
proof -
  have p: "password_value example_blank = ''  ''"
    by (simp add: example_blank_def)
  show ?thesis
    using p invalid_example_blank valid_example_credentials
      validation_before_fetch [of example_blank
        "Response True (Json (JsonArray example_categories))"]
      validation_before_fetch [of example_credentials
        "Response True (Json (JsonArray example_categories))"]
    by simp
qed

text \<open>
  C7. When the fetch of the categories fails (the promise of \<open>fetch\<close> rejects, the body
  is not JSON, or the response is not \<open>ok\<close>), the page is on step 1 afterwards and shows an
  error. For a response that is not \<open>ok\<close> the text after the prefix is the \<open>details\<close> of the
  body if it has one, else its \<open>error\<close> if it has one, else the generic text; a property
  counts as present as JavaScript's \<open>||\<close> counts it: it exists and is not the empty string.
\<close>

theorem failed_fetch_message:
  assumes "valid_credentials st"
  shows "currentStep (loadCategories (FetchRejected m) st) = 1 \<and>
     results (loadCategories (FetchRejected m) st)
       = Some (AlertError (''Failed to load categories: '' @ m)) \<and>
     currentStep (loadCategories (Response ok (BadJson m)) st) = 1 \<and>
     results (loadCategories (Response ok (BadJson m)) st)
       = Some (AlertError (''Failed to load categories: '' @ m)) \<and>
     currentStep (loadCategories (Response False (Json data)) st) = 1 \<and>
     activeSteps (loadCategories (Response False (Json data)) st) = {1} \<and>
     categories (loadCategories (Response False (Json data)) st) = categories st \<and>
     (\<forall>x. d = Some x \<and> x \<noteq> [] \<longrightarrow>
        results (loadCategories (Response False (Json (JsonObject d e))) st)
          = Some (AlertError (''Failed to load categories: '' @ x))) \<and>
     (\<forall>y. (d = None \<or> d = Some []) \<and> e = Some y \<and> y \<noteq> [] \<longrightarrow>
        results (loadCategories (Response False (Json (JsonObject d e))) st)
          = Some (AlertError (''Failed to load categories: '' @ y))) \<and>
     ((d = None \<or> d = Some []) \<and> (e = None \<or> e = Some []) \<longrightarrow>
        results (loadCategories (Response False (Json (JsonObject d e))) st)
          = Some (AlertError (''Failed to load categories: '' @ ''Failed to load categories'')))"
  using assms
  by (auto simp: valid_credentials_def loadCategories_def Let_def loadCategories_catch_def
      showStep_def hideAllSteps_def showError_def send_def clearResults_def failure_text_def)

theorem failed_fetch_message_witness:
  "valid_credentials example_credentials \<and>
   currentStep (loadCategories (Response False (Json (JsonObject (Some ''bad login'')
       (Some ''Unauthorized'')))) example_credentials) = 1 \<and>
   results (loadCategories (Response False (Json (JsonObject (Some ''bad login'')
       (Some ''Unauthorized'')))) example_credentials)
     = Some (AlertError ''Failed to load categories: bad login'') \<and>
   results (loadCategories (Response False (Json (JsonObject None (Some ''Unauthorized''))))
       example_credentials)
     = Some (AlertError ''Failed to load categories: Unauthorized'') \<and>
   results (loadCategories (Response False (Json (JsonObject None None))) example_credentials)
     = Some (AlertError ''Failed to load categories: Failed to load categories'')"
  using valid_example_credentials
    failed_fetch_message [OF valid_example_credentials,
      of "''x''" True "JsonObject (Some ''bad login'') (Some ''Unauthorized'')"
         "Some ''bad login''" "Some ''Unauthorized''"]
    failed_fetch_message [OF valid_example_credentials,
      of "''x''" True "JsonObject None None" None "Some ''Unauthorized''"]
    failed_fetch_message [OF valid_example_credentials,
      of "''x''" True "JsonObject None None" None None]
  by simp

section \<open>Going back to the credentials\<close>

text \<open>
  C8. \<open>goBackToStep1\<close> changes nothing but the step shown; \<open>useOtherCredentials\<close> empties
  the three credential fields, clears the alert and shows step 1. Both leave the stored
  categories, the chips with their selection, and the filter mode as they are.
\<close>

theorem back_transitions_keep_categories:
  "goBackToStep1 st = st\<lparr>activeSteps := {1}, currentStep := 1\<rparr> \<and>
   useOtherCredentials st
     = st\<lparr>url_value := [], username_value := [], password_value := [], results := None,
          activeSteps := {1}, currentStep := 1\<rparr> \<and>
   categories (goBackToStep1 st) = categories st \<and>
   chips (goBackToStep1 st) = chips st \<and>
   filterMode_value (goBackToStep1 st) = filterMode_value st \<and>
   categories (useOtherCredentials st) = categories st \<and>
   chips (useOtherCredentials st) = chips st \<and>
   filterMode_value (useOtherCredentials st) = filterMode_value st"
  by (simp add: goBackToStep1_def useOtherCredentials_def showStep_def hideAllSteps_def
      clearResults_def)

theorem back_transitions_keep_categories_witness:
  "categories (useOtherCredentials example_selecting) = JsonArray example_categories \<and>
   map selected (chips (useOtherCredentials example_selecting)) = [True, True] \<and>
   url_value (useOtherCredentials example_selecting) = [] \<and>
   currentStep (useOtherCredentials example_selecting) = 1 \<and>
   map selected (chips (goBackToStep1 example_selecting)) = [True, True] \<and>
   url_value (goBackToStep1 example_selecting) = ''http://tv '' \<and>
   currentStep (goBackToStep1 example_selecting) = 1"
  using back_transitions_keep_categories [of example_selecting]
  by (simp add: example_selecting_eval example_loaded_eval)

section \<open>The order of the names on the wire\<close>













section \<open>The playlist artifact\<close>

lemma loadCategories_split:
  "loadCategories resp st =
     (if valid_credentials st then loadCategories_resume resp (loadCategories_begin st)
      else loadCategories_begin st)"
  by (simp add: loadCategories_def loadCategories_begin_def loadCategories_resume_def
      valid_credentials_def Let_def)

lemma confirmGeneration_split:
  "confirmGeneration resp st = confirmGeneration_resume resp (confirmGeneration_begin st)"
  by (simp add: confirmGeneration_def confirmGeneration_begin_def confirmGeneration_resume_def
      Let_def)

text \<open>
  What \<open>startOver\<close> does: it empties the category list, the chips with their selection
  and the three credential fields, and it revokes the one object URL that the download
  link holds. It is the only function of the script that revokes anything.
\<close>

lemma startOver_discards:
  "categories (startOver st) = JsonArray [] \<and> chips (startOver st) = [] \<and>
   url_value (startOver st) = [] \<and> username_value (startOver st) = [] \<and>
   password_value (startOver st) = [] \<and> currentStep (startOver st) = 1 \<and>
   liveUrls (startOver st) = liveUrls st - held st"
  by (cases "link_href st")
     (simp_all add: startOver_def Let_def held_def revokeObjectURL_def showStep_def
        hideAllSteps_def clearResults_def)

lemma back_releases_nothing:
  "liveUrls (goBackToStep1 st) = liveUrls st \<and> liveUrls (useOtherCredentials st) = liveUrls st"
  by (simp add: goBackToStep1_def useOtherCredentials_def showStep_def hideAllSteps_def
      clearResults_def)

lemma example_overlap_eval:
  "example_overlap =
     Some (idle (example_selecting
       \<lparr>currentStep := 3, activeSteps := {3}, link_href := BlobUrl 1, link_displayed := True,
        liveUrls := {0, 1}, nextUrl := 2,
        requests := requests example_selecting
          @ [(''/m3u'', playlistParams ''http://tv'' ''u'' ''p'' False [''News'', ''Sports'']
                          ''exclude''),
             (''/m3u'', playlistParams ''http://tv'' ''u'' ''p'' False [''News'', ''Sports'']
                          ''exclude'')]\<rparr>))"
  by (simp add: example_overlap_def idle_def example_selecting_eval example_loaded_eval
      confirmGeneration_begin_def confirmGeneration_resume_def getSelectedCategories_def
      trim_def js_whitespace_def markup_free_def Let_def send_def hideAllSteps_def
      showStep_def createObjectURL_def insert_commute)

text \<open>
  C9 fails on the script. \<open>confirmGeneration\<close> leaves \<open>currentStep\<close> at 2 while it awaits the
  response (line 257 only hides the steps), so Ctrl+Enter opens the confirmation again
  (lines 427-435) and a second generation starts. When both responses are \<open>ok\<close>, each
  continuation creates an object URL and stores it in the download link (lines 289-292)
  without revoking the one stored there: in step 3 two object URLs are live, and
  \<open>startOver\<close> revokes only the one the link holds, so one stays live for good.
\<close>

theorem overlapping_generations_leak:
  "map_option (\<lambda>s. (currentStep (page s), link_href (page s), liveUrls (page s),
                     liveUrls (startOver (page s)), currentStep (startOver (page s))))
     example_overlap
   = Some (3, BlobUrl 1, {0, 1}, {0}, 1)"
  by (auto simp add: example_overlap_eval idle_def startOver_discards held_def)

end
